theory Spec2Isabelle
  imports Complex_Main "HOL-Library.Word"
begin

section \<open>Python values used by \<open>logger.py\<close>\<close>

text \<open>
  The exceptions the module can raise are values: a function that can raise returns
  \<open>error + 'a\<close>, with \<open>Inl\<close> for the exception.
\<close>

datatype error =
    AttributeError | IndexError | KeyError | TypeError | ValueError
  | ZeroDivisionError | FileNotFoundError | UnpicklingError | RuntimeError

text \<open>
  \<open>str(n)\<close> for a Python \<open>int\<close>, \<open>s.zfill(width)\<close> and the two-argument
  \<open>os.path.join\<close> (POSIX).
\<close>

fun digits :: "nat \<Rightarrow> string" where
  "digits n =
     (if n < 10 then [''0123456789'' ! n]
      else digits (n div 10) @ [''0123456789'' ! (n mod 10)])"

declare digits.simps [simp del]

definition str_int :: "int \<Rightarrow> string" where
  "str_int i = (if i < 0 then CHR ''-'' # digits (nat (- i)) else digits (nat i))"

definition zfill :: "string \<Rightarrow> int \<Rightarrow> string" where
  "zfill s width =
     (if width \<le> int (length s) then s
      else let pad = replicate (nat width - length s) CHR ''0'' in
        (case s of
           [] \<Rightarrow> pad
         | c # cs \<Rightarrow> if c = CHR ''+'' \<or> c = CHR ''-'' then c # pad @ cs else pad @ s))"

definition path_join :: "string \<Rightarrow> string \<Rightarrow> string" where
  "path_join a b =
     (if b \<noteq> [] \<and> hd b = CHR ''/'' then b
      else if a = [] \<or> last a = CHR ''/'' then a @ b
      else a @ ''/'' @ b)"

section \<open>numpy arrays\<close>

text \<open>
  An \<open>ndarray\<close> is its shape and its elements in row-major (C) order. The element
  type \<open>'a\<close> stands for the dtype: an operation that keeps the dtype keeps the type.
  \<open>ravel\<close> is the offset of a multi-index, \<open>unravel\<close> the multi-index of an offset,
  \<open>elem a idx\<close> reads \<open>a[idx]\<close> and \<open>tabulate sh f\<close> builds the array of shape
  \<open>sh\<close> whose element at \<open>idx\<close> is \<open>f idx\<close>.
\<close>

record 'a ndarray =
  shape :: "nat list"
  data :: "'a list"

fun ravel :: "nat list \<Rightarrow> nat list \<Rightarrow> nat" where
  "ravel (d # ds) (i # is) = i * prod_list ds + ravel ds is"
| "ravel _ _ = 0"

fun unravel :: "nat list \<Rightarrow> nat \<Rightarrow> nat list" where
  "unravel [] k = []"
| "unravel (d # ds) k = (k div prod_list ds) # unravel ds (k mod prod_list ds)"

definition tabulate :: "nat list \<Rightarrow> (nat list \<Rightarrow> 'a) \<Rightarrow> 'a ndarray" where
  "tabulate sh f = \<lparr>shape = sh, data = map (\<lambda>k. f (unravel sh k)) [0..<prod_list sh]\<rparr>"

definition elem :: "'a ndarray \<Rightarrow> nat list \<Rightarrow> 'a" where
  "elem a idx = data a ! ravel (shape a) idx"

text \<open>
  Arrays live in a store: an address is a position in the list of the arrays allocated
  so far, a new array is appended. A reference is an array or the view \<open>a[i]\<close> of one
  (what iterating over \<open>a\<close> yields); \<open>rd\<close> reads the array a reference shows.
\<close>

type_synonym addr = nat

type_synonym 'a heap = "'a ndarray list"

datatype ref = Whole addr | Item addr nat

definition subarray :: "'a ndarray \<Rightarrow> nat \<Rightarrow> 'a ndarray" where
  "subarray a i = tabulate (tl (shape a)) (\<lambda>idx. elem a (i # idx))"

fun rd :: "'a heap \<Rightarrow> ref \<Rightarrow> 'a ndarray" where
  "rd h (Whole p) = h ! p"
| "rd h (Item p i) = subarray (h ! p) i"


definition alloc :: "'a heap \<Rightarrow> 'a ndarray \<Rightarrow> 'a heap \<times> addr" where
  "alloc h a = (h @ [a], length h)"

definition np_copy :: "'a heap \<Rightarrow> ref \<Rightarrow> 'a heap \<times> addr" where
  "np_copy h r = alloc h (rd h r)"

text \<open>\<open>list(a)\<close>: the views \<open>a[0]\<close>, \<open>a[1]\<close>, ...; a 0-d array cannot be iterated.\<close>

definition np_list :: "'a ndarray \<Rightarrow> error + 'a ndarray list" where
  "np_list a =
     (case shape a of
        [] \<Rightarrow> Inl TypeError
      | n # _ \<Rightarrow> Inr (map (subarray a) [0..<n]))"

text \<open>
  \<open>np.array(arrs)\<close> for a list of arrays of one shape: a new array with one more
  leading axis. The empty list gives the empty 1-d array.
\<close>

definition np_stack :: "'a ndarray list \<Rightarrow> 'a ndarray" where
  "np_stack arrs =
     (case arrs of
        [] \<Rightarrow> \<lparr>shape = [0], data = []\<rparr>
      | a # _ \<Rightarrow> \<lparr>shape = length arrs # shape a, data = concat (map data arrs)\<rparr>)"

text \<open>
  \<open>np.concatenate(arrs, axis)\<close>: at least one array, all of one rank that has the
  axis, equal shapes off the axis; every failure is a ValueError. \<open>pick\<close> finds the
  array an index of the result falls into.
\<close>

fun pick :: "nat \<Rightarrow> 'a ndarray \<Rightarrow> 'a ndarray list \<Rightarrow> nat list \<Rightarrow> 'a" where
  "pick ax a [] idx = elem a idx"
| "pick ax a (b # bs) idx =
     (if idx ! ax < shape a ! ax then elem a idx
      else pick ax b bs (idx[ax := idx ! ax - shape a ! ax]))"

definition concatenate :: "'a ndarray list \<Rightarrow> nat \<Rightarrow> error + 'a ndarray" where
  "concatenate arrs ax =
     (case arrs of
        [] \<Rightarrow> Inl ValueError
      | a # bs \<Rightarrow>
          if list_ex (\<lambda>b. length (shape b) \<noteq> length (shape a)) bs then Inl ValueError
          else if length (shape a) \<le> ax then Inl ValueError
          else if list_ex (\<lambda>b. (shape b)[ax := 0] \<noteq> (shape a)[ax := 0]) bs then Inl ValueError
          else Inr (tabulate ((shape a)[ax := sum_list (map (\<lambda>b. shape b ! ax) arrs)])
                      (pick ax a bs)))"

text \<open>\<open>np.transpose(a, [0, 2, 3, 4, 1])\<close>: the axes must be those of a 5-d array.\<close>

definition transpose_02341 :: "'a ndarray \<Rightarrow> error + 'a ndarray" where
  "transpose_02341 a =
     (case shape a of
        [b, c, t, h, w] \<Rightarrow>
          Inr (tabulate [b, t, h, w, c] (\<lambda>idx. elem a [idx ! 0, idx ! 4, idx ! 1, idx ! 2, idx ! 3]))
      | _ \<Rightarrow> Inl ValueError)"

text \<open>
  Elementwise arithmetic with broadcasting: shapes are aligned at the last axis, an axis
  of length 1 stretches.
\<close>

fun broadcast_rev :: "nat list \<Rightarrow> nat list \<Rightarrow> nat list option" where
  "broadcast_rev [] ns = Some ns"
| "broadcast_rev ms [] = Some ms"
| "broadcast_rev (m # ms) (n # ns) =
     (if m = n \<or> n = 1 \<or> m = 1
      then map_option (\<lambda>r. (if m = 1 then n else m) # r) (broadcast_rev ms ns)
      else None)"

definition broadcast_shapes :: "nat list \<Rightarrow> nat list \<Rightarrow> nat list option" where
  "broadcast_shapes s1 s2 = map_option rev (broadcast_rev (rev s1) (rev s2))"

definition broadcast_index :: "nat list \<Rightarrow> nat list \<Rightarrow> nat list" where
  "broadcast_index sh idx =
     map (\<lambda>(d, i). if d = 1 then 0 else i) (zip sh (drop (length idx - length sh) idx))"

definition np_add :: "real ndarray \<Rightarrow> real ndarray \<Rightarrow> error + real ndarray" where
  "np_add a b =
     (case broadcast_shapes (shape a) (shape b) of
        None \<Rightarrow> Inl ValueError
      | Some sh \<Rightarrow>
          Inr (tabulate sh (\<lambda>idx. elem a (broadcast_index (shape a) idx)
                                 + elem b (broadcast_index (shape b) idx))))"

definition np_scale :: "real \<Rightarrow> real ndarray \<Rightarrow> real ndarray" where
  "np_scale k a = \<lparr>shape = shape a, data = map (\<lambda>v. k * v) (data a)\<rparr>"

text \<open>
  \<open>.astype(np.uint8)\<close> on a float: the C conversion, which drops the fraction
  (rounds toward zero). A value outside the range of the integer types is taken modulo
  \<open>2^8\<close> here; floats are modelled by reals throughout.
\<close>

definition trunc :: "real \<Rightarrow> int" where
  "trunc x = (if x < 0 then \<lceil>x\<rceil> else \<lfloor>x\<rfloor>)"

definition astype_uint8 :: "real ndarray \<Rightarrow> 8 word ndarray" where
  "astype_uint8 a = \<lparr>shape = shape a, data = map (\<lambda>v. word_of_int (trunc v)) (data a)\<rparr>"

text \<open>Sequencing of calls that can raise.\<close>

definition and_then :: "error + 'a \<Rightarrow> ('a \<Rightarrow> error + 'b) \<Rightarrow> error + 'b" where
  "and_then r f = (case r of Inl e \<Rightarrow> Inl e | Inr v \<Rightarrow> f v)"

section \<open>The Visualizer\<close>

record visualizer =
  kp_size :: int
  draw_border :: bool

text \<open>\<open>Visualizer()\<close> with the defaults of \<open>__init__\<close>.\<close>

definition Visualizer_default :: visualizer where
  "Visualizer_default = \<lparr>kp_size = 2, draw_border = True\<rparr>"

text \<open>
  \<open>skimage.draw.circle(r, c, radius, shape)\<close>, which is \<open>ellipse\<close> with both radii
  equal and no rotation (scikit-image 0.14 to 0.18): the bounding box of the disk is
  clipped to \<open>[0, shape[:2] - 1]\<close> and the pixels of the box at distance less than the
  radius from the centre are returned, as (row, column) pairs. The clip is
  \<open>np.minimum(lower_right, np.array(shape[:2]) - 1)\<close>, which broadcasts: a shape of
  one element bounds the rows and the columns alike, an empty one raises.
\<close>

definition ellipse_points :: "real \<Rightarrow> real \<Rightarrow> int \<Rightarrow> int \<Rightarrow> int \<Rightarrow> (int \<times> int) list" where
  "ellipse_points r c radius n_rows n_cols =
     (let upper_r = max \<lceil>r - \<bar>real_of_int radius\<bar>\<rceil> 0;
          upper_c = max \<lceil>c - \<bar>real_of_int radius\<bar>\<rceil> 0;
          lower_r = min \<lfloor>r + \<bar>real_of_int radius\<bar>\<rfloor> (n_rows - 1);
          lower_c = min \<lfloor>c + \<bar>real_of_int radius\<bar>\<rfloor> (n_cols - 1)
      in concat (map (\<lambda>i. map (\<lambda>j. (i, j))
           (filter (\<lambda>j. radius \<noteq> 0 \<and>
               ((real_of_int i - r) / real_of_int radius)\<^sup>2
                 + ((real_of_int j - c) / real_of_int radius)\<^sup>2 < 1) [upper_c..lower_c]))
           [upper_r..lower_r]))"

definition circle :: "real \<Rightarrow> real \<Rightarrow> int \<Rightarrow> nat list \<Rightarrow> error + (int \<times> int) list" where
  "circle r c radius shp =
     (case take 2 shp of
        [] \<Rightarrow> Inl ValueError
      | [n] \<Rightarrow> Inr (ellipse_points r c radius (int n) (int n))
      | n # m # _ \<Rightarrow> Inr (ellipse_points r c radius (int n) (int m)))"

text \<open>
  \<open>a[i][rr, cc] = (1, 1, 1)\<close>: \<open>a[i]\<close> needs two axes to index; every row and
  column index must lie in \<open>[-n, n)\<close> for its axis (a negative one counts from the
  end) or the write raises IndexError and writes nothing; the three values must broadcast
  to the selection, whose shape is the number of points followed by the axes after the
  column axis.
\<close>

definition wrap_index :: "nat \<Rightarrow> int \<Rightarrow> nat" where
  "wrap_index n i = nat (if i < 0 then i + int n else i)"

definition set_pixels :: "'a::one ndarray \<Rightarrow> nat \<Rightarrow> (int \<times> int) list \<Rightarrow> error + 'a ndarray" where
  "set_pixels a i pts =
     (let sh = shape a in
      if length sh < 3 then Inl IndexError
      else if list_ex (\<lambda>(y, x). y < - int (sh ! 1) \<or> int (sh ! 1) \<le> y
                              \<or> x < - int (sh ! 2) \<or> int (sh ! 2) \<le> x) pts
        then Inl IndexError
      else if last (length pts # drop 3 sh) \<noteq> 3 then Inl ValueError
      else Inr (tabulate sh (\<lambda>idx.
             if idx ! 0 = i \<and>
                List.member (map (\<lambda>(y, x). (wrap_index (sh ! 1) y, wrap_index (sh ! 2) x)) pts)
                  (idx ! 1, idx ! 2)
             then 1 else elem a idx)))"

text \<open>
  \<open>draw_video_with_kp\<close>. A keypoint is \<open>(kp[0], kp[1])\<close>, that is (x, y). The inner
  loop is \<open>draw_frame\<close>, the outer one \<open>draw_frames\<close>; both write to the copy
  \<open>video_array\<close> in the store. The shape handed to \<open>circle\<close> is
  \<open>video_array.shape[1:2]\<close>.
\<close>

type_synonym keypoint = "real \<times> real"

fun draw_frame ::
  "visualizer \<Rightarrow> 'a::one heap \<Rightarrow> addr \<Rightarrow> nat \<Rightarrow> keypoint list \<Rightarrow> 'a heap \<times> error option" where
  "draw_frame vis h video_array i [] = (h, None)"
| "draw_frame vis h video_array i (kp # kps) =
     (case circle (snd kp) (fst kp) (kp_size vis) (take 1 (drop 1 (shape (h ! video_array)))) of
        Inl e \<Rightarrow> (h, Some e)
      | Inr pts \<Rightarrow>
          (case set_pixels (h ! video_array) i pts of
             Inl e \<Rightarrow> (h, Some e)
           | Inr a' \<Rightarrow> draw_frame vis (h[video_array := a']) video_array i kps))"

fun draw_frames ::
  "visualizer \<Rightarrow> 'a::one heap \<Rightarrow> addr \<Rightarrow> keypoint list list \<Rightarrow> nat list \<Rightarrow> 'a heap \<times> error option" where
  "draw_frames vis h video_array kp_array [] = (h, None)"
| "draw_frames vis h video_array kp_array (i # is) =
     (if length kp_array \<le> i then (h, Some IndexError)
      else (case draw_frame vis h video_array i (kp_array ! i) of
              (h', Some e) \<Rightarrow> (h', Some e)
            | (h', None) \<Rightarrow> draw_frames vis h' video_array kp_array is))"

definition draw_video_with_kp ::
  "visualizer \<Rightarrow> 'a::one heap \<Rightarrow> ref \<Rightarrow> keypoint list list \<Rightarrow> 'a heap \<times> (error + addr)" where
  "draw_video_with_kp vis h video kp_array =
     (let (h1, video_array) = np_copy h video in
      case shape (h1 ! video_array) of
        [] \<Rightarrow> (h1, Inl TypeError)
      | n # _ \<Rightarrow>
          (case draw_frames vis h1 video_array kp_array [0..<n] of
             (h2, Some e) \<Rightarrow> (h2, Inl e)
           | (h2, None) \<Rightarrow> (h2, Inr video_array)))"

text \<open>
  \<open>videos[:, :, [0, -1]] = (1, 1, 1)\<close> is \<open>assign_border 2\<close> and
  \<open>videos[:, :, :, [0, -1]] = (1, 1, 1)\<close> is \<open>assign_border 3\<close>: the axis must exist
  and be non-empty, and the three values must broadcast to the selection, whose shape is
  that of the array with 2 on the axis.
\<close>

definition assign_border :: "nat \<Rightarrow> 'a::one ndarray \<Rightarrow> error + 'a ndarray" where
  "assign_border ax a =
     (let sh = shape a in
      if length sh \<le> ax then Inl IndexError
      else if sh ! ax = 0 then Inl IndexError
      else if last (sh[ax := 2]) \<noteq> 3 then Inl ValueError
      else Inr (tabulate sh (\<lambda>idx.
             if idx ! ax = 0 \<or> idx ! ax = sh ! ax - 1 then 1 else elem a idx)))"

text \<open>
  \<open>create_video_column\<close>: both assignments write to the array \<open>videos\<close> names, the
  one the caller passed; only the concatenation is a new array.
\<close>

definition draw_borders :: "'a::one heap \<Rightarrow> addr \<Rightarrow> 'a heap \<times> error option" where
  "draw_borders h videos =
     (case assign_border 2 (h ! videos) of
        Inl e \<Rightarrow> (h, Some e)
      | Inr a1 \<Rightarrow>
          (case assign_border 3 a1 of
             Inl e \<Rightarrow> (h[videos := a1], Some e)
           | Inr a2 \<Rightarrow> (h[videos := a2], None)))"

definition create_video_column ::
  "visualizer \<Rightarrow> 'a::one heap \<Rightarrow> addr \<Rightarrow> 'a heap \<times> (error + addr)" where
  "create_video_column vis h videos =
     (case (if draw_border vis then draw_borders h videos else (h, None)) of
        (h1, Some e) \<Rightarrow> (h1, Inl e)
      | (h1, None) \<Rightarrow>
          (case and_then (np_list (h1 ! videos)) (\<lambda>frames. concatenate frames 1) of
             Inl e \<Rightarrow> (h1, Inl e)
           | Inr column \<Rightarrow> (let (h2, q) = alloc h1 column in (h2, Inr q))))"

text \<open>
  \<open>create_video_column_with_kp\<close>: \<open>draw_batch\<close> is the list comprehension over
  \<open>zip(video, kp)\<close>, each \<open>v\<close> a view of \<open>video\<close>.
\<close>

fun draw_batch ::
  "visualizer \<Rightarrow> 'a::one heap \<Rightarrow> addr \<Rightarrow> (nat \<times> keypoint list list) list \<Rightarrow>
     'a heap \<times> (error + addr list)" where
  "draw_batch vis h video [] = (h, Inr [])"
| "draw_batch vis h video ((b, k) # rest) =
     (case draw_video_with_kp vis h (Item video b) k of
        (h1, Inl e) \<Rightarrow> (h1, Inl e)
      | (h1, Inr q) \<Rightarrow>
          (case draw_batch vis h1 video rest of
             (h2, Inl e) \<Rightarrow> (h2, Inl e)
           | (h2, Inr qs) \<Rightarrow> (h2, Inr (q # qs))))"

definition create_video_column_with_kp ::
  "visualizer \<Rightarrow> 'a::one heap \<Rightarrow> addr \<Rightarrow> keypoint list list list \<Rightarrow> 'a heap \<times> (error + addr)" where
  "create_video_column_with_kp vis h video kp =
     (case shape (h ! video) of
        [] \<Rightarrow> (h, Inl TypeError)
      | n # _ \<Rightarrow>
          (case draw_batch vis h video (zip [0..<n] kp) of
             (h1, Inl e) \<Rightarrow> (h1, Inl e)
           | (h1, Inr qs) \<Rightarrow>
               (let (h2, video_array) = alloc h1 (np_stack (map (nth h1) qs))
                in create_video_column vis h2 video_array)))"

text \<open>
  \<open>create_image_grid\<close>: an argument is an array or a (video, keypoints) tuple;
  \<open>grid_columns\<close> is the loop that fills \<open>out\<close>.
\<close>

datatype group = Plain addr | WithKp addr "keypoint list list list"

fun grid_columns :: "visualizer \<Rightarrow> 'a::one heap \<Rightarrow> group list \<Rightarrow> 'a heap \<times> (error + addr list)" where
  "grid_columns vis h [] = (h, Inr [])"
| "grid_columns vis h (arg # args) =
     (case (case arg of
              WithKp video kp \<Rightarrow> create_video_column_with_kp vis h video kp
            | Plain videos \<Rightarrow> create_video_column vis h videos) of
        (h1, Inl e) \<Rightarrow> (h1, Inl e)
      | (h1, Inr q) \<Rightarrow>
          (case grid_columns vis h1 args of
             (h2, Inl e) \<Rightarrow> (h2, Inl e)
           | (h2, Inr qs) \<Rightarrow> (h2, Inr (q # qs))))"

definition create_image_grid ::
  "visualizer \<Rightarrow> 'a::one heap \<Rightarrow> group list \<Rightarrow> 'a heap \<times> (error + addr)" where
  "create_image_grid vis h args =
     (case grid_columns vis h args of
        (h1, Inl e) \<Rightarrow> (h1, Inl e)
      | (h1, Inr out) \<Rightarrow>
          (case concatenate (map (nth h1) out) 2 of
             Inl e \<Rightarrow> (h1, Inl e)
           | Inr grid \<Rightarrow> (let (h2, q) = alloc h1 grid in (h2, Inr q))))"

text \<open>
  \<open>visualize_transfer\<close> and \<open>visualize_reconstruction\<close> of the Visualizer. A tensor
  of the dicts is read as the array \<open>.data.cpu().numpy()\<close> gives; the transposed
  batches are the arrays of a store of their own, which \<open>create_image_grid\<close> works
  on. \<open>transfer_grid\<close> and \<open>reconstruction_grid\<close> are the functions up to the float
  image, the last line of each converts it.
\<close>

type_synonym tensors = "string \<rightharpoonup> real ndarray"

definition lookup :: "tensors \<Rightarrow> string \<Rightarrow> error + real ndarray" where
  "lookup d k = (case d k of None \<Rightarrow> Inl KeyError | Some v \<Rightarrow> Inr v)"

definition transfer_grid :: "visualizer \<Rightarrow> tensors \<Rightarrow> tensors \<Rightarrow> error + real ndarray" where
  "transfer_grid vis inp out =
     and_then (lookup out ''video_prediction'') (\<lambda>out_video_batch.
     and_then (lookup inp ''first_video_array'') (\<lambda>motion_video_batch.
     and_then (lookup inp ''second_video_array'') (\<lambda>appearance_video_batch.
     and_then (transpose_02341 out_video_batch) (\<lambda>out_t.
     and_then (transpose_02341 motion_video_batch) (\<lambda>motion_t.
     and_then (transpose_02341 appearance_video_batch) (\<lambda>appearance_t.
       (case create_image_grid vis [appearance_t, motion_t, out_t] [Plain 0, Plain 1, Plain 2] of
          (h, Inl e) \<Rightarrow> Inl e
        | (h, Inr q) \<Rightarrow> Inr (h ! q))))))))"

definition Visualizer_visualize_transfer ::
  "visualizer \<Rightarrow> tensors \<Rightarrow> tensors \<Rightarrow> error + 8 word ndarray" where
  "Visualizer_visualize_transfer vis inp out =
     and_then (transfer_grid vis inp out) (\<lambda>img. Inr (astype_uint8 (np_scale 255 img)))"

definition reconstruction_grid :: "visualizer \<Rightarrow> tensors \<Rightarrow> tensors \<Rightarrow> error + real ndarray" where
  "reconstruction_grid vis inp out =
     and_then (lookup out ''video_prediction'') (\<lambda>out_video_batch.
     and_then (lookup inp ''video_array'') (\<lambda>gt_video_batch.
     and_then (lookup out ''video_deformed'') (\<lambda>appearance_deformed_batch.
     and_then (transpose_02341 out_video_batch) (\<lambda>out_t.
     and_then (transpose_02341 gt_video_batch) (\<lambda>gt_t.
     and_then (transpose_02341 appearance_deformed_batch) (\<lambda>deformed_t.
     and_then (np_add (np_scale 0.5 gt_t) (np_scale 0.5 deformed_t)) (\<lambda>diff_batch.
       (case create_image_grid vis [gt_t, out_t, deformed_t, diff_batch]
               [Plain 0, Plain 1, Plain 2, Plain 3] of
          (h, Inl e) \<Rightarrow> Inl e
        | (h, Inr q) \<Rightarrow> Inr (h ! q)))))))))"

definition visualize_reconstruction ::
  "visualizer \<Rightarrow> tensors \<Rightarrow> tensors \<Rightarrow> error + 8 word ndarray" where
  "visualize_reconstruction vis inp out =
     and_then (reconstruction_grid vis inp out) (\<lambda>img. Inr (astype_uint8 (np_scale 255 img)))"

section \<open>The Logger\<close>

text \<open>
  A model is an object with a \<open>state_dict\<close> and a call operator
  (\<open>model(inp)\<close>, \<open>model(inp, True)\<close>); the call is a parameter of the embedding, it
  receives the current parameters, the input tensors and the optional flag. An optimizer
  is only its state. Tensors are held by name in a dict.
\<close>

record 'm nn_module =
  state_dict :: 'm
  call :: "'m \<Rightarrow> tensors \<Rightarrow> bool option \<Rightarrow> error + tensors"

text \<open>
  What \<open>torch.save\<close> and \<open>imageio.mimsave\<close> put on disk. A checkpoint is the dict
  \<open>d\<close> of \<open>save_cpk\<close>, keys in insertion order. The disk is the sequence of writes
  made so far; a path reads as the last write to it.
\<close>

datatype ('m, 'o) cpk_value = ModelState 'm | OptimizerState 'o | Iter int

datatype ('m, 'o) disk_file =
    Checkpoint "(string \<times> ('m, 'o) cpk_value) list"
  | Gif "8 word ndarray"

type_synonym ('m, 'o) disk = "(string \<times> ('m, 'o) disk_file) list"

definition write_file :: "string \<Rightarrow> ('m, 'o) disk_file \<Rightarrow> ('m, 'o) disk \<Rightarrow> ('m, 'o) disk" where
  "write_file path f disk = disk @ [(path, f)]"

definition read_file :: "('m, 'o) disk \<Rightarrow> string \<Rightarrow> ('m, 'o) disk_file option" where
  "read_file disk path = map_of (rev disk) path"

text \<open>
  One line of the text log: the zero-padded iteration and the (name, mean) pairs that
  \<open>log_scores\<close> formats with \<open>%s - %.5f\<close>. The log file is the handle opened in
  \<open>__init__\<close>: its path and the lines printed through it.
\<close>

record log_line =
  stamp :: string
  scores :: "(string \<times> real) list"

record text_file =
  file_path :: string
  printed :: "log_line list"

record ('m, 'o) logger =
  log_dir :: string
  loss_list :: "real list list"
  log_file :: text_file
  log_freq :: int
  cpk_freq :: int
  fill_counter :: int
  model :: "'m nn_module"
  optimizer :: "'o option"
  it :: int

text \<open>\<open>Logger.__init__\<close>; the defaults of the source are the caller's to pass.\<close>

definition Logger_init ::
  "'m nn_module \<Rightarrow> string \<Rightarrow> 'o option \<Rightarrow> string \<Rightarrow> int \<Rightarrow> int \<Rightarrow> int \<Rightarrow> ('m, 'o) logger" where
  "Logger_init mdl dir opt log_file_name lfreq cfreq fill =
     \<lparr>log_dir = dir, loss_list = [],
      log_file = \<lparr>file_path = path_join dir log_file_name, printed = []\<rparr>,
      log_freq = lfreq, cpk_freq = cfreq, fill_counter = fill,
      model = mdl, optimizer = opt, it = 0\<rparr>"

definition cpk_path :: "('m, 'o) logger \<Rightarrow> string" where
  "cpk_path lg =
     path_join (log_dir lg) (zfill (str_int (it lg)) (fill_counter lg) @ ''-checkpoint.pth.tar'')"

text \<open>
  \<open>save_cpk\<close>: the dict literal calls \<open>self.optimizer.state_dict()\<close> with no test of
  \<open>self.optimizer\<close>, so a logger built without an optimizer raises AttributeError there,
  before anything is written.
\<close>

definition save_cpk :: "('m, 'o) logger \<Rightarrow> ('m, 'o) disk \<Rightarrow> error + ('m, 'o) disk" where
  "save_cpk lg disk =
     (case optimizer lg of
        None \<Rightarrow> Inl AttributeError
      | Some opt_state \<Rightarrow>
          let d = [(''model'', ModelState (state_dict (model lg))),
                   (''optimizer'', OptimizerState opt_state),
                   (''iter'', Iter (it lg))]
          in Inr (write_file (cpk_path lg) (Checkpoint d) disk))"

text \<open>
  \<open>load_cpk\<close> (static). The model and the optimizer are updated in place, so they are
  returned with the outcome: an exception raised after the model was loaded leaves the
  model loaded. \<open>load_state_dict\<close> takes a state of its own kind only. The value
  returned is whatever the checkpoint holds under \<open>iter\<close>.
\<close>

definition load_cpk ::
  "('m, 'o) disk \<Rightarrow> string \<Rightarrow> 'm nn_module \<Rightarrow> 'o option \<Rightarrow>
     'm nn_module \<times> 'o option \<times> (error + ('m, 'o) cpk_value)" where
  "load_cpk disk checkpoint_path mdl opt =
     (case read_file disk checkpoint_path of
        None \<Rightarrow> (mdl, opt, Inl FileNotFoundError)
      | Some (Gif _) \<Rightarrow> (mdl, opt, Inl UnpicklingError)
      | Some (Checkpoint checkpoint) \<Rightarrow>
          (case map_of checkpoint ''model'' of
             None \<Rightarrow> (mdl, opt, Inl KeyError)
           | Some (OptimizerState _) \<Rightarrow> (mdl, opt, Inl TypeError)
           | Some (Iter _) \<Rightarrow> (mdl, opt, Inl TypeError)
           | Some (ModelState m) \<Rightarrow>
               let mdl' = mdl\<lparr>state_dict := m\<rparr> in
               (case opt of
                  None \<Rightarrow>
                    (case map_of checkpoint ''iter'' of
                       None \<Rightarrow> (mdl', None, Inl KeyError)
                     | Some v \<Rightarrow> (mdl', None, Inr v))
                | Some _ \<Rightarrow>
                    (case map_of checkpoint ''optimizer'' of
                       None \<Rightarrow> (mdl', opt, Inl KeyError)
                     | Some (ModelState _) \<Rightarrow> (mdl', opt, Inl TypeError)
                     | Some (Iter _) \<Rightarrow> (mdl', opt, Inl TypeError)
                     | Some (OptimizerState os) \<Rightarrow>
                         (case map_of checkpoint ''iter'' of
                            None \<Rightarrow> (mdl', Some os, Inl KeyError)
                          | Some v \<Rightarrow> (mdl', Some os, Inr v))))))"

text \<open>
  \<open>np.array(self.loss_list).mean(axis=0)\<close>: the column means of the buffered rows.
  Rows of different lengths make no 2-d array (ValueError). An empty buffer gives the
  scalar NaN, which \<open>zip\<close> cannot iterate over: \<open>log_scores\<close> raises TypeError
  there, before it prints.
\<close>

datatype mean_result = NaN | Means "real list"

definition np_mean_axis0 :: "real list list \<Rightarrow> error + mean_result" where
  "np_mean_axis0 rows =
     (case rows of
        [] \<Rightarrow> Inr NaN
      | r # rs \<Rightarrow>
          if list_ex (\<lambda>r'. length r' \<noteq> length r) rs then Inl ValueError
          else Inr (Means (map (\<lambda>j. sum_list (map (\<lambda>row. row ! j) rows) / real (length rows))
                            [0..<length r])))"

definition log_scores :: "('m, 'o) logger \<Rightarrow> string list \<Rightarrow> ('m, 'o) logger \<times> error option" where
  "log_scores lg loss_names =
     (case np_mean_axis0 (loss_list lg) of
        Inl e \<Rightarrow> (lg, Some e)
      | Inr NaN \<Rightarrow> (lg, Some TypeError)
      | Inr (Means loss_mean) \<Rightarrow>
          (let line = \<lparr>stamp = zfill (str_int (it lg)) (fill_counter lg),
                       scores = zip loss_names loss_mean\<rparr>
           in (lg\<lparr>log_file := (log_file lg)\<lparr>printed := printed (log_file lg) @ [line]\<rparr>,
                  loss_list := []\<rparr>, None)))"

definition gif_path :: "('m, 'o) logger \<Rightarrow> string \<Rightarrow> string" where
  "gif_path lg suffix =
     path_join (log_dir lg) (zfill (str_int (it lg)) (fill_counter lg) @ suffix)"

definition visualize_rec ::
  "('m, 'o) logger \<Rightarrow> ('m, 'o) disk \<Rightarrow> tensors \<Rightarrow> error + ('m, 'o) disk" where
  "visualize_rec lg disk inp =
     and_then (call (model lg) (state_dict (model lg)) inp None) (\<lambda>out.
     and_then (visualize_reconstruction Visualizer_default inp out) (\<lambda>img.
       Inr (write_file (gif_path lg ''-rec.gif'') (Gif img) disk)))"

text \<open>
  \<open>a[range(bs)[::-1]]\<close>: the first \<open>bs\<close> entries of the first axis in reverse order.
\<close>

definition reverse_batch :: "nat \<Rightarrow> 'a ndarray \<Rightarrow> error + 'a ndarray" where
  "reverse_batch bs a =
     (case shape a of
        [] \<Rightarrow> Inl IndexError
      | n # rest \<Rightarrow>
          if n < bs then Inl IndexError
          else Inr (tabulate (bs # rest) (\<lambda>idx. elem a ((bs - 1 - hd idx) # tl idx))))"

definition Logger_visualize_transfer ::
  "('m, 'o) logger \<Rightarrow> ('m, 'o) disk \<Rightarrow> tensors \<Rightarrow> error + ('m, 'o) disk" where
  "Logger_visualize_transfer lg disk inp =
     and_then (lookup inp ''video_array'') (\<lambda>video_array.
       (case shape video_array of
          [] \<Rightarrow> Inl IndexError
        | bs # _ \<Rightarrow>
            and_then (reverse_batch bs video_array) (\<lambda>second_video_array.
            and_then
              (let t = [''first_video_array'' \<mapsto> video_array,
                        ''second_video_array'' \<mapsto> second_video_array]
               in (case inp ''kp_array'' of
                     None \<Rightarrow> Inr t
                   | Some kp_array \<Rightarrow>
                       and_then (reverse_batch bs kp_array) (\<lambda>second_kp_array.
                         Inr (t(''first_kp_array'' \<mapsto> kp_array,
                                ''second_kp_array'' \<mapsto> second_kp_array)))))
              (\<lambda>transfer_inp.
            and_then (call (model lg) (state_dict (model lg)) transfer_inp (Some True)) (\<lambda>out.
            and_then (Visualizer_visualize_transfer Visualizer_default transfer_inp out) (\<lambda>img.
              Inr (write_file (gif_path lg ''-trans.gif'') (Gif img) disk)))))))"

text \<open>
  \<open>log\<close>. An exception leaves the logger and the disk as they were when it was raised,
  so both are returned with the outcome (\<open>None\<close>: the call returned).
  \<open>names, values = list(zip(*loss_list))\<close> needs a non-empty list of pairs. The body
  takes the method it calls as \<open>self.log_scores\<close> as a parameter, so that the states
  the method is called on can be spoken of; \<open>Logger_log\<close> is the body with
  \<open>log_scores\<close>.
\<close>

definition log_body ::
  "(('m, 'o) logger \<Rightarrow> string list \<Rightarrow> ('m, 'o) logger \<times> error option) \<Rightarrow>
   ('m, 'o) logger \<Rightarrow> ('m, 'o) disk \<Rightarrow> int \<Rightarrow> (string \<times> real) list \<Rightarrow> tensors \<Rightarrow>
     ('m, 'o) logger \<times> ('m, 'o) disk \<times> error option" where
  "log_body self_log_scores lg disk itr losses inp =
     (case losses of
        [] \<Rightarrow> (lg, disk, Some ValueError)
      | _ # _ \<Rightarrow>
          (let names = map fst losses;
               values = map snd losses;
               lg1 = lg\<lparr>it := itr\<rparr>;
               lg2 = lg1\<lparr>loss_list := loss_list lg1 @ [values]\<rparr>
           in case (if log_freq lg2 = 0 then (lg2, disk, Some ZeroDivisionError)
                    else if itr mod log_freq lg2 = 0 then
                      (case self_log_scores lg2 names of
                         (lg3, Some e) \<Rightarrow> (lg3, disk, Some e)
                       | (lg3, None) \<Rightarrow>
                           (case visualize_rec lg3 disk inp of
                              Inl e \<Rightarrow> (lg3, disk, Some e)
                            | Inr disk1 \<Rightarrow>
                                (case Logger_visualize_transfer lg3 disk1 inp of
                                   Inl e \<Rightarrow> (lg3, disk1, Some e)
                                 | Inr disk2 \<Rightarrow> (lg3, disk2, None))))
                    else (lg2, disk, None)) of
                (lg3, disk3, Some e) \<Rightarrow> (lg3, disk3, Some e)
              | (lg3, disk3, None) \<Rightarrow>
                  if cpk_freq lg3 = 0 then (lg3, disk3, Some ZeroDivisionError)
                  else if itr mod cpk_freq lg3 = 0 then
                    (case save_cpk lg3 disk3 of
                       Inl e \<Rightarrow> (lg3, disk3, Some e)
                     | Inr disk4 \<Rightarrow> (lg3, disk4, None))
                  else (lg3, disk3, None)))"

definition Logger_log ::
  "('m, 'o) logger \<Rightarrow> ('m, 'o) disk \<Rightarrow> int \<Rightarrow> (string \<times> real) list \<Rightarrow> tensors \<Rightarrow>
     ('m, 'o) logger \<times> ('m, 'o) disk \<times> error option" where
  "Logger_log = log_body log_scores"

text \<open>
  A training loop: one \<open>log\<close> call after the other on one logger, each with its
  iteration, losses and batch; the first exception ends it.
\<close>

fun run_logs ::
  "('m, 'o) logger \<Rightarrow> ('m, 'o) disk \<Rightarrow> (int \<times> (string \<times> real) list \<times> tensors) list \<Rightarrow>
     ('m, 'o) logger \<times> ('m, 'o) disk \<times> error option" where
  "run_logs lg disk [] = (lg, disk, None)"
| "run_logs lg disk ((itr, losses, inp) # calls) =
     (case Logger_log lg disk itr losses inp of
        (lg', disk', Some e) \<Rightarrow> (lg', disk', Some e)
      | (lg', disk', None) \<Rightarrow> run_logs lg' disk' calls)"

fun is_checkpoint :: "('m, 'o) disk_file \<Rightarrow> bool" where
  "is_checkpoint (Checkpoint _) = True"
| "is_checkpoint (Gif _) = False"

text \<open>
  The calls made since the last flush, in the words of the specification: the calls after
  the last one whose iteration the report interval divides.
\<close>

definition calls_since_flush :: "int \<Rightarrow> (int \<times> 'b) list \<Rightarrow> (int \<times> 'b) list" where
  "calls_since_flush freq calls = rev (takeWhile (\<lambda>c. fst c mod freq \<noteq> 0) (rev calls))"

section \<open>Example values\<close>

text \<open>
  A model that answers with its input video, a batch of one video of one frame of one
  pixel, a logger around them and a short training loop.
\<close>

definition echo_model :: "unit nn_module" where
  "echo_model = \<lparr>state_dict = (), call = (\<lambda>params inp flag.
      (case inp ''video_array'' of
         Some v \<Rightarrow> Inr [''video_prediction'' \<mapsto> v, ''video_deformed'' \<mapsto> v]
       | None \<Rightarrow>
           (case inp ''first_video_array'' of
              Some v \<Rightarrow> Inr [''video_prediction'' \<mapsto> v]
            | None \<Rightarrow> Inl KeyError)))\<rparr>"

definition one_pixel_batch :: tensors where
  "one_pixel_batch = [''video_array'' \<mapsto> \<lparr>shape = [1, 3, 1, 1, 1], data = [1 / 2, 1 / 4, 1]\<rparr>]"

definition example_logger :: "int \<Rightarrow> int \<Rightarrow> (unit, nat) logger" where
  "example_logger lfreq cfreq = Logger_init echo_model ''run'' (Some 7) ''log.txt'' lfreq cfreq 8"

definition three_calls :: "(int \<times> (string \<times> real) list \<times> tensors) list" where
  "three_calls =
     [(1, [(''a'', 1), (''b'', 3)], one_pixel_batch),
      (2, [(''a'', 3), (''b'', 5)], one_pixel_batch),
      (3, [(''a'', 5), (''b'', 7)], one_pixel_batch)]"

text \<open>
  Arrays for the Visualizer: a batch of one black 3 by 3 frame, a video of two black
  frames 2 high and 3 wide, a video of one black frame 3 high and 2 wide, and a model
  output for the one-pixel batch.
\<close>

definition black_batch :: "real ndarray" where
  "black_batch = \<lparr>shape = [1, 1, 3, 3, 3], data = replicate 27 0\<rparr>"


definition tall_video :: "real ndarray" where
  "tall_video = \<lparr>shape = [1, 3, 2, 3], data = replicate 18 0\<rparr>"


section \<open>Arrays and the store\<close>

lemma ravel_less: "list_all2 (<) idx sh \<Longrightarrow> ravel sh idx < prod_list sh"
proof (induction sh idx rule: ravel.induct)
  case (1 d ds i "is")
  then have i: "i < d" and rest: "list_all2 (<) is ds" by simp_all
  from 1 rest have "ravel ds is < prod_list ds" by simp
  moreover have "i * prod_list ds + prod_list ds \<le> d * prod_list ds"
    using i by (metis Suc_leI mult_Suc mult_le_mono1 add.commute)
  ultimately show ?case by simp
qed simp_all

lemma unravel_ravel: "list_all2 (<) idx sh \<Longrightarrow> unravel sh (ravel sh idx) = idx"
proof (induction sh idx rule: ravel.induct)
  case (1 d ds i "is")
  then have rest: "list_all2 (<) is ds" by simp
  then have "ravel ds is < prod_list ds" by (rule ravel_less)
  with 1 rest show ?case by simp
qed simp_all


lemma shape_tabulate [simp]: "shape (tabulate sh f) = sh"
  by (simp add: tabulate_def)

lemma elem_tabulate: "list_all2 (<) idx sh \<Longrightarrow> elem (tabulate sh f) idx = f idx"
  by (simp add: elem_def tabulate_def ravel_less unravel_ravel)


lemma shape_subarray [simp]: "shape (subarray a i) = tl (shape a)"
  by (simp add: subarray_def)

lemma concatenate_same_shape:
  assumes "arrs \<noteq> []" and "\<forall>b \<in> set arrs. shape b = sh" and "ax < length sh"
  shows "\<exists>col. concatenate arrs ax = Inr col"
proof -
  from assms(1) obtain a bs where arrs: "arrs = a # bs" by (cases arrs) auto
  with assms(2) have a: "shape a = sh" and bs: "\<forall>b \<in> set bs. shape b = sh" by auto
  from a bs assms(3) show ?thesis
    by (simp add: concatenate_def arrs list_ex_iff)
qed

lemma assign_border_ok:
  assumes "ax < length (shape a)" and "0 < shape a ! ax" and "last (shape a) = 3"
    and "ax + 1 < length (shape a)"
  shows "assign_border ax a =
     Inr (tabulate (shape a) (\<lambda>idx. if idx ! ax = 0 \<or> idx ! ax = shape a ! ax - 1 then 1 else elem a idx))"
proof -
  have "last ((shape a)[ax := 2]) = last (shape a)"
    using assms(4) by (cases "shape a" rule: rev_cases) (auto simp: list_update_append nth_append last_list_update)
  with assms show ?thesis by (simp add: assign_border_def Let_def)
qed

section \<open>Borders are drawn in place\<close>

text \<open>
  What \<open>create_video_column\<close> does with borders enabled, for a batch of \<open>B\<close> videos
  of \<open>T\<close> frames of \<open>H\<close> by \<open>W\<close> pixels of three channels: the array it was passed
  has the value 1 in the first and last row and the first and last column of every frame
  and its old value everywhere else; no other array of the store changes and the column
  returned is a new array.
\<close>

lemma create_video_column_draws_in_place:
  assumes "draw_border vis" and "videos < length h"
    and "shape (h ! videos) = [B, T, H, W, 3]" and "0 < B" and "0 < H" and "0 < W"
  shows "\<exists>h'. create_video_column vis h videos = (h', Inr (length h))
     \<and> length h' = length h + 1
     \<and> (\<forall>p < length h. p \<noteq> videos \<longrightarrow> h' ! p = h ! p)
     \<and> shape (h' ! videos) = [B, T, H, W, 3]
     \<and> (\<forall>b < B. \<forall>t < T. \<forall>y < H. \<forall>x < W. \<forall>c < 3.
           elem (h' ! videos) [b, t, y, x, c] =
             (if y = 0 \<or> y = H - 1 \<or> x = 0 \<or> x = W - 1 then 1
              else elem (h ! videos) [b, t, y, x, c]))"
proof -
  let ?sh = "[B, T, H, W, 3]"
  define a where "a = h ! videos"
  define a1 where "a1 = tabulate ?sh (\<lambda>idx. if idx ! 2 = 0 \<or> idx ! 2 = H - 1 then 1 else elem a idx)"
  define a2 where "a2 = tabulate ?sh (\<lambda>idx. if idx ! 3 = 0 \<or> idx ! 3 = W - 1 then 1 else elem a1 idx)"
  have sa: "shape a = ?sh" using assms(3) by (simp add: a_def)
  have sa1: "shape a1 = ?sh" by (simp add: a1_def)
  have sa2: "shape a2 = ?sh" by (simp add: a2_def)
  have b1: "assign_border 2 a = Inr a1"
    using assms(5) by (subst assign_border_ok) (simp_all add: sa a1_def)
  have b2: "assign_border 3 a1 = Inr a2"
    using assms(6) by (subst assign_border_ok) (simp_all add: sa1 a2_def)
  define h1 where "h1 = h[videos := a2]"
  have borders: "draw_borders h videos = (h1, None)"
    using b1 b2 by (simp add: draw_borders_def a_def h1_def)
  have at1: "h1 ! videos = a2" using assms(2) by (simp add: h1_def)
  have frames: "np_list a2 = Inr (map (subarray a2) [0..<B])"
    by (simp add: np_list_def sa2)
  have "\<exists>col. concatenate (map (subarray a2) [0..<B]) 1 = Inr col"
    using assms(4) by (intro concatenate_same_shape [where sh = "[T, H, W, 3]"]) (auto simp: sa2)
  then obtain col where col: "concatenate (map (subarray a2) [0..<B]) 1 = Inr col" ..
  have len1: "length h1 = length h" by (simp add: h1_def)
  have res: "create_video_column vis h videos = (h1 @ [col], Inr (length h))"
    using assms(1)
    by (simp add: create_video_column_def borders at1 frames col and_then_def alloc_def len1
          del: One_nat_def)
  have el: "elem a2 [b, t, y, x, c] =
             (if y = 0 \<or> y = H - 1 \<or> x = 0 \<or> x = W - 1 then 1 else elem a [b, t, y, x, c])"
    if "b < B" "t < T" "y < H" "x < W" "c < 3" for b t y x c
  proof -
    have inb: "list_all2 (<) [b, t, y, x, c] ?sh" using that by simp
    have e2: "elem a2 [b, t, y, x, c] = (if x = 0 \<or> x = W - 1 then 1 else elem a1 [b, t, y, x, c])"
      unfolding a2_def by (subst elem_tabulate [OF inb]) simp
    have e1: "elem a1 [b, t, y, x, c] = (if y = 0 \<or> y = H - 1 then 1 else elem a [b, t, y, x, c])"
      unfolding a1_def by (subst elem_tabulate [OF inb]) simp
    show ?thesis unfolding e2 e1 by auto
  qed
  have at: "(h1 @ [col]) ! videos = a2" using assms(2) at1 by (simp add: nth_append len1)
  have other: "(h1 @ [col]) ! p = h ! p" if "p < length h" "p \<noteq> videos" for p
    using that by (simp add: nth_append h1_def)
  have "length (h1 @ [col]) = length h + 1" by (simp add: len1)
  with res at other el sa2 show ?thesis
    unfolding a_def by (intro exI [of _ "h1 @ [col]"]) simp
qed

text \<open>
  C2. \<open>create_video_column\<close> makes no working copy, unlike \<open>draw_video_with_kp\<close>:
  the two assignments write to the array the caller passed. Called on a batch of one
  black 3 by 3 frame it returns the column and leaves the caller's array with a white
  border, only the centre pixel still black.
\<close>

theorem create_video_column_overwrites_caller_array:
  "snd (create_video_column Visualizer_default [black_batch] 0) = Inr 1
   \<and> fst (create_video_column Visualizer_default [black_batch] 0) ! 0 \<noteq> black_batch
   \<and> data (fst (create_video_column Visualizer_default [black_batch] 0) ! 0)
       = [1, 1, 1, 1, 1, 1, 1, 1, 1,
          1, 1, 1, 0, 0, 0, 1, 1, 1,
          1, 1, 1, 1, 1, 1, 1, 1, 1]"
  by code_simp

section \<open>Keypoints are drawn on a copy\<close>













text \<open>
  C4. The shape handed to \<open>circle\<close> is \<open>video_array.shape[1:2]\<close>, the height alone,
  so the columns of the disk are clipped to the height, not to the width. On a frame 3
  high and 2 wide a keypoint at x = 1, y = 1, inside the frame, gives column indices up
  to 2 and the write raises IndexError; with the two-element shape \<open>shape[1:3]\<close> the
  disk would be clipped to the frame.
\<close>

theorem draw_video_with_kp_tall_frame_raises:
  "snd (draw_video_with_kp Visualizer_default [tall_video] (Whole 0) [[(1, 1)]]) = Inl IndexError
   \<and> circle 1 1 2 (take 1 (drop 1 (shape tall_video)))
       = Inr [(0, 0), (0, 1), (0, 2), (1, 0), (1, 1), (1, 2), (2, 0), (2, 1), (2, 2)]
   \<and> circle 1 1 2 (take 2 (drop 1 (shape tall_video)))
       = Inr [(0, 0), (0, 1), (1, 0), (1, 1), (2, 0), (2, 1)]"
  by code_simp

section \<open>The conversion to 8 bits\<close>






section \<open>Checkpoints\<close>

lemma read_file_write_file: "read_file (write_file path f disk) path = Some f"
  by (simp add: read_file_def write_file_def)

text \<open>
  C1. A logger built without an optimizer cannot save a checkpoint: \<open>save_cpk\<close> raises
  AttributeError and writes nothing, whatever the model, the directory and the intervals.
  With an optimizer the checkpoint holds exactly the keys model, optimizer and iter.
\<close>

theorem save_cpk_without_optimizer_raises:
  "save_cpk (Logger_init mdl dir None name lfreq cfreq fill) disk = Inl AttributeError
   \<and> (\<exists>d. save_cpk (Logger_init mdl dir (Some os) name lfreq cfreq fill) disk
            = Inr (disk @ [(cpk_path (Logger_init mdl dir (Some os) name lfreq cfreq fill), Checkpoint d)])
          \<and> map fst d = [''model'', ''optimizer'', ''iter'']
          \<and> map_of d ''optimizer'' = Some (OptimizerState os))"
  by (simp add: save_cpk_def Logger_init_def write_file_def)

text \<open>
  C8. Checkpoint round trip. A logger that holds an optimizer saves; loading the file it
  wrote into any model (and any optimizer, when one is passed) returns the saved iteration
  and leaves the model parameters, and the optimizer state, equal to those at save time.
\<close>

theorem save_then_load_cpk:
  assumes "optimizer lg = Some os"
  shows "\<exists>disk'. save_cpk lg disk = Inr disk'
     \<and> load_cpk disk' (cpk_path lg) mdl None
         = (mdl\<lparr>state_dict := state_dict (model lg)\<rparr>, None, Inr (Iter (it lg)))
     \<and> load_cpk disk' (cpk_path lg) mdl (Some os0)
         = (mdl\<lparr>state_dict := state_dict (model lg)\<rparr>, Some os, Inr (Iter (it lg)))"
  using assms by (simp add: save_cpk_def load_cpk_def read_file_write_file)

text \<open>
  Iteration 42 with pad width 8: the checkpoint is \<open>run/00000042-checkpoint.pth.tar\<close>
  and loading it gives back the iteration, the parameters and the optimizer state.
\<close>

theorem save_then_load_cpk_witness:
  "(let lg = Logger_init \<lparr>state_dict = [1::int, 2], call = (\<lambda>m t f. Inr t)\<rparr> ''run'' (Some (7::int)) ''log.txt'' 100 1000 8;
        lg42 = lg\<lparr>it := 42\<rparr>
    in optimizer lg42 = Some 7
     \<and> cpk_path lg42 = ''run/00000042-checkpoint.pth.tar''
     \<and> (\<exists>disk'. save_cpk lg42 [] = Inr disk'
          \<and> load_cpk disk' (cpk_path lg42) \<lparr>state_dict = [], call = (\<lambda>m t f. Inl KeyError)\<rparr> (Some 0)
              = (\<lparr>state_dict = [1, 2], call = (\<lambda>m t f. Inl KeyError)\<rparr>, Some 7, Inr (Iter 42))))"
proof -
  let ?lg = "(Logger_init \<lparr>state_dict = [1::int, 2], call = (\<lambda>m t f. Inr t)\<rparr> ''run'' (Some (7::int)) ''log.txt'' 100 1000 8)\<lparr>it := 42\<rparr>"
  have o: "optimizer ?lg = Some 7" by (simp add: Logger_init_def)
  have p: "cpk_path ?lg = ''run/00000042-checkpoint.pth.tar''"
    by code_simp
  from save_then_load_cpk [OF o, of "[]" "\<lparr>state_dict = [], call = (\<lambda>m t f. Inl KeyError)\<rparr>" 0]
  obtain disk' where
    "save_cpk ?lg [] = Inr disk'"
    "load_cpk disk' (cpk_path ?lg) \<lparr>state_dict = [], call = (\<lambda>m t f. Inl KeyError)\<rparr> (Some 0)
       = (\<lparr>state_dict = [], call = (\<lambda>m t f. Inl KeyError)\<rparr>\<lparr>state_dict := state_dict (model ?lg)\<rparr>,
          Some 7, Inr (Iter (it ?lg)))"
    by blast
  then have "\<exists>disk'. save_cpk ?lg [] = Inr disk'
      \<and> load_cpk disk' (cpk_path ?lg) \<lparr>state_dict = [], call = (\<lambda>m t f. Inl KeyError)\<rparr> (Some 0)
          = (\<lparr>state_dict = [1, 2], call = (\<lambda>m t f. Inl KeyError)\<rparr>, Some 7, Inr (Iter 42))"
    by (simp add: Logger_init_def)
  with o p show ?thesis unfolding Let_def by blast
qed

section \<open>The log operation\<close>

lemma log_scores_returns:
  assumes "log_scores lg names = (lg', None)"
  shows "\<exists>line. lg' = lg\<lparr>log_file := (log_file lg)\<lparr>printed := printed (log_file lg) @ [line]\<rparr>,
                         loss_list := []\<rparr>"
  using assms
  by (auto simp: log_scores_def Let_def split: sum.splits mean_result.splits)

lemma visualize_rec_writes:
  assumes "visualize_rec lg disk inp = Inr disk'"
  shows "\<exists>img. disk' = disk @ [(gif_path lg ''-rec.gif'', Gif img)]"
  using assms
  by (auto simp: visualize_rec_def and_then_def write_file_def split: sum.splits)

lemma Logger_visualize_transfer_writes:
  assumes "Logger_visualize_transfer lg disk inp = Inr disk'"
  shows "\<exists>img. disk' = disk @ [(gif_path lg ''-trans.gif'', Gif img)]"
  using assms
  by (auto simp: Logger_visualize_transfer_def and_then_def write_file_def Let_def
           split: sum.splits list.splits option.splits)

lemma save_cpk_writes:
  assumes "save_cpk lg disk = Inr disk'"
  shows "\<exists>d. disk' = disk @ [(cpk_path lg, Checkpoint d)]"
  using assms
  by (auto simp: save_cpk_def write_file_def split: option.splits)

text \<open>The state a call of log leaves, whatever its outcome.\<close>

lemma fst_log_body:
  "fst (log_body f lg disk itr losses inp) =
     (if losses = [] then lg
      else let lg2 = lg\<lparr>it := itr, loss_list := loss_list lg @ [map snd losses]\<rparr>
           in if log_freq lg \<noteq> 0 \<and> itr mod log_freq lg = 0 then fst (f lg2 (map fst losses))
              else lg2)"
  by (auto simp: log_body_def Let_def split: list.splits prod.splits option.splits sum.splits)

lemma Logger_log_returns:
  assumes "Logger_log lg disk itr losses inp = (lg', disk', None)"
  shows "losses \<noteq> [] \<and> log_freq lg \<noteq> 0 \<and> cpk_freq lg \<noteq> 0
     \<and> it lg' = itr \<and> log_freq lg' = log_freq lg \<and> cpk_freq lg' = cpk_freq lg
     \<and> loss_list lg' = (if itr mod log_freq lg = 0 then [] else loss_list lg @ [map snd losses])
     \<and> length (printed (log_file lg'))
         = length (printed (log_file lg)) + (if itr mod log_freq lg = 0 then 1 else 0)
     \<and> length (filter is_checkpoint (map snd disk'))
         = length (filter is_checkpoint (map snd disk)) + (if itr mod cpk_freq lg = 0 then 1 else 0)"
proof -
  from assms obtain x xs where losses: "losses = x # xs"
    by (cases losses) (auto simp: Logger_log_def log_body_def)
  let ?lg2 = "lg\<lparr>it := itr, loss_list := loss_list lg @ [map snd losses]\<rparr>"
  from assms losses have lf: "log_freq lg \<noteq> 0"
    by (auto simp: Logger_log_def log_body_def Let_def split: if_splits)
  have report: "\<exists>lg3 disk3.
      (if itr mod log_freq lg = 0
       then (\<exists>line img1 img2. lg3 = ?lg2\<lparr>log_file := (log_file lg)\<lparr>printed := printed (log_file lg) @ [line]\<rparr>,
                                  loss_list := []\<rparr>
              \<and> disk3 = disk @ [(gif_path lg3 ''-rec.gif'', Gif img1), (gif_path lg3 ''-trans.gif'', Gif img2)])
       else lg3 = ?lg2 \<and> disk3 = disk)
      \<and> cpk_freq lg \<noteq> 0
      \<and> lg' = lg3
      \<and> (if itr mod cpk_freq lg = 0 then (\<exists>d. disk' = disk3 @ [(cpk_path lg3, Checkpoint d)]) else disk' = disk3)"
  proof (cases "itr mod log_freq lg = 0")
    case True
    with assms losses lf show ?thesis
      by (auto simp: Logger_log_def log_body_def Let_def
            split: if_splits prod.splits option.splits sum.splits
            dest!: log_scores_returns visualize_rec_writes Logger_visualize_transfer_writes save_cpk_writes)
  next
    case False
    with assms losses lf show ?thesis
      by (auto simp: Logger_log_def log_body_def Let_def
            split: if_splits prod.splits option.splits sum.splits
            dest!: save_cpk_writes)
  qed
  then obtain lg3 disk3 where
    r: "if itr mod log_freq lg = 0
       then (\<exists>line img1 img2. lg3 = ?lg2\<lparr>log_file := (log_file lg)\<lparr>printed := printed (log_file lg) @ [line]\<rparr>,
                                  loss_list := []\<rparr>
              \<and> disk3 = disk @ [(gif_path lg3 ''-rec.gif'', Gif img1), (gif_path lg3 ''-trans.gif'', Gif img2)])
       else lg3 = ?lg2 \<and> disk3 = disk"
    and c: "cpk_freq lg \<noteq> 0" "lg' = lg3"
      "if itr mod cpk_freq lg = 0 then (\<exists>d. disk' = disk3 @ [(cpk_path lg3, Checkpoint d)]) else disk' = disk3"
    by blast
  show ?thesis
  proof (cases "itr mod log_freq lg = 0")
    case True
    with r c losses lf show ?thesis by (cases "itr mod cpk_freq lg = 0") auto
  next
    case False
    with r c losses lf show ?thesis by (cases "itr mod cpk_freq lg = 0") auto
  qed
qed

lemma run_logs_snoc:
  "run_logs lg disk (calls @ [(itr, losses, inp)]) =
     (case run_logs lg disk calls of
        (lg1, disk1, Some e) \<Rightarrow> (lg1, disk1, Some e)
      | (lg1, disk1, None) \<Rightarrow> Logger_log lg1 disk1 itr losses inp)"
proof (induction calls arbitrary: lg disk)
  case Nil
  show ?case by (simp split: prod.splits option.splits)
next
  case (Cons c calls)
  obtain i l t where c: "c = (i, l, t)" by (cases c)
  show ?case using Cons.IH by (simp add: c split: prod.splits option.splits)
qed

lemma run_logs_snoc_returns:
  assumes "run_logs lg disk (calls @ [(itr, losses, inp)]) = (lg', disk', None)"
  obtains lg1 disk1 where "run_logs lg disk calls = (lg1, disk1, None)"
    and "Logger_log lg1 disk1 itr losses inp = (lg', disk', None)"
  using assms unfolding run_logs_snoc by (auto split: prod.splits option.splits)

lemma run_logs_freq:
  assumes "run_logs lg disk calls = (lg', disk', None)"
  shows "log_freq lg' = log_freq lg \<and> cpk_freq lg' = cpk_freq lg"
  using assms
proof (induction calls arbitrary: lg' disk' rule: rev_induct)
  case Nil
  then show ?case by simp
next
  case (snoc c calls)
  obtain itr losses inp where c: "c = (itr, losses, inp)" by (cases c)
  from snoc.prems obtain lg1 disk1 where
    run: "run_logs lg disk calls = (lg1, disk1, None)"
    and last: "Logger_log lg1 disk1 itr losses inp = (lg', disk', None)"
    unfolding c by (rule run_logs_snoc_returns)
  from snoc.IH [OF run] Logger_log_returns [OF last] show ?case by simp
qed

lemma calls_since_flush_snoc:
  "calls_since_flush freq (calls @ [c]) =
     (if fst c mod freq = 0 then [] else calls_since_flush freq calls @ [c])"
  by (simp add: calls_since_flush_def)

text \<open>
  C5 as stated fails: \<open>log\<close> stores the iteration it is passed, so a run that logs
  iteration 5 and then iteration 3 returns with the counter gone from 5 to 3.
\<close>

theorem iteration_counter_decreases_counterexample:
  "snd (snd (run_logs (example_logger 100 1000) []
       [(5, [(''a'', 1)], one_pixel_batch), (3, [(''a'', 1)], one_pixel_batch)])) = None
   \<and> it (fst (run_logs (example_logger 100 1000) [] [(5, [(''a'', 1)], one_pixel_batch)])) = 5
   \<and> it (fst (run_logs (example_logger 100 1000) []
       [(5, [(''a'', 1)], one_pixel_batch), (3, [(''a'', 1)], one_pixel_batch)])) = 3
   \<and> \<not> it (fst (run_logs (example_logger 100 1000) [] [(5, [(''a'', 1)], one_pixel_batch)]))
       \<le> it (fst (run_logs (example_logger 100 1000) []
           [(5, [(''a'', 1)], one_pixel_batch), (3, [(''a'', 1)], one_pixel_batch)]))"
  by code_simp

text \<open>
  C5, as amended. In a run of \<open>log\<close> calls that all return, the stored counter is the
  iteration passed to the last call, so it is non-decreasing exactly when the caller
  passes non-decreasing iterations; a line is printed for exactly the calls whose
  iteration the report interval divides, and a checkpoint is written for exactly the
  calls whose iteration the checkpoint interval divides.
\<close>

theorem counter_and_triggers_follow_iteration:
  assumes "run_logs lg disk calls = (lg', disk', None)"
  shows "it lg' = (if calls = [] then it lg else fst (last calls))
       \<and> length (printed (log_file lg')) =
           length (printed (log_file lg))
             + length (filter (\<lambda>c. fst c mod log_freq lg = 0) calls)
       \<and> length (filter is_checkpoint (map snd disk')) =
           length (filter is_checkpoint (map snd disk))
             + length (filter (\<lambda>c. fst c mod cpk_freq lg = 0) calls)"
  using assms
proof (induction calls arbitrary: lg' disk' rule: rev_induct)
  case Nil
  then show ?case by simp
next
  case (snoc c calls)
  obtain itr losses inp where c: "c = (itr, losses, inp)" by (cases c)
  from snoc.prems obtain lg1 disk1 where
    run: "run_logs lg disk calls = (lg1, disk1, None)"
    and last: "Logger_log lg1 disk1 itr losses inp = (lg', disk', None)"
    unfolding c by (rule run_logs_snoc_returns)
  have freq: "log_freq lg1 = log_freq lg" "cpk_freq lg1 = cpk_freq lg"
    using run_logs_freq [OF run] by simp_all
  from Logger_log_returns [OF last] freq snoc.IH [OF run] show ?case
    by (simp add: c)
qed

text \<open>
  Three calls at iterations 1, 2, 3 with both intervals 2: the counter ends at 3, one
  line is printed and one checkpoint written.
\<close>

theorem counter_and_triggers_follow_iteration_witness:
  "snd (snd (run_logs (example_logger 2 2) [] three_calls)) = None
   \<and> it (fst (run_logs (example_logger 2 2) [] three_calls)) = 3
   \<and> length (printed (log_file (fst (run_logs (example_logger 2 2) [] three_calls)))) = 1
   \<and> length (filter is_checkpoint (map snd (fst (snd (run_logs (example_logger 2 2) [] three_calls))))) = 1"
proof -
  let ?r = "run_logs (example_logger 2 2) [] three_calls"
  have e: "snd (snd ?r) = None" by code_simp
  then have "?r = (fst ?r, fst (snd ?r), None)" by (metis prod.collapse)
  note t = counter_and_triggers_follow_iteration [OF this]
  have i: "(if three_calls = [] then it (example_logger 2 2) else fst (last three_calls)) = 3"
    by code_simp
  have p: "length (printed (log_file (example_logger 2 2)))
             + length (filter (\<lambda>c. fst c mod log_freq (example_logger 2 2) = 0) three_calls) = 1"
    by code_simp
  have c: "length (filter is_checkpoint (map snd ([] :: (unit, nat) disk)))
             + length (filter (\<lambda>c. fst c mod cpk_freq (example_logger 2 2) = 0) three_calls) = 1"
    by code_simp
  from t i p c e show ?thesis by simp
qed

text \<open>
  C6. In a run of \<open>log\<close> calls that all return, the loss buffer holds the value rows of
  the calls made since the last flush, in order (after what it held at the start, when
  no call flushed): on a logger that starts with an empty buffer its length is the
  number of calls since the last flush. After a call whose iteration the report interval
  divides the buffer is empty; after any other call it is one entry longer than before
  that call.
\<close>

theorem loss_buffer_holds_calls_since_flush:
  assumes "run_logs lg disk calls = (lg', disk', None)"
  shows "loss_list lg' =
           (if list_ex (\<lambda>c. fst c mod log_freq lg = 0) calls then [] else loss_list lg)
             @ map (\<lambda>c. map snd (fst (snd c))) (calls_since_flush (log_freq lg) calls)
       \<and> (loss_list lg = [] \<longrightarrow>
            length (loss_list lg') = length (calls_since_flush (log_freq lg) calls))
       \<and> (calls \<noteq> [] \<longrightarrow>
            length (loss_list lg') =
              (if fst (last calls) mod log_freq lg = 0 then 0
               else length (loss_list (fst (run_logs lg disk (butlast calls)))) + 1))"
proof -
  have content: "loss_list lg' =
           (if list_ex (\<lambda>c. fst c mod log_freq lg = 0) calls then [] else loss_list lg)
             @ map (\<lambda>c. map snd (fst (snd c))) (calls_since_flush (log_freq lg) calls)"
    using assms
  proof (induction calls arbitrary: lg' disk' rule: rev_induct)
    case Nil
    then show ?case by (simp add: calls_since_flush_def)
  next
    case (snoc c calls)
    obtain itr losses inp where c: "c = (itr, losses, inp)" by (cases c)
    from snoc.prems obtain lg1 disk1 where
      run: "run_logs lg disk calls = (lg1, disk1, None)"
      and last: "Logger_log lg1 disk1 itr losses inp = (lg', disk', None)"
      unfolding c by (rule run_logs_snoc_returns)
    have freq: "log_freq lg1 = log_freq lg" using run_logs_freq [OF run] by simp
    from Logger_log_returns [OF last] freq
    have buf: "loss_list lg' =
        (if itr mod log_freq lg = 0 then [] else loss_list lg1 @ [map snd losses])"
      by simp
    show ?case
      using snoc.IH [OF run] buf by (simp add: c calls_since_flush_snoc)
  qed
  have step: "length (loss_list lg') =
        (if fst (last calls) mod log_freq lg = 0 then 0
         else length (loss_list (fst (run_logs lg disk (butlast calls)))) + 1)"
    if ne: "calls \<noteq> []"
  proof -
    from ne obtain cs c where cs: "calls = cs @ [c]" by (metis rev_exhaust)
    obtain itr losses inp where c: "c = (itr, losses, inp)" by (cases c)
    from assms obtain lg1 disk1 where
      run: "run_logs lg disk cs = (lg1, disk1, None)"
      and last: "Logger_log lg1 disk1 itr losses inp = (lg', disk', None)"
      unfolding cs c by (rule run_logs_snoc_returns)
    have freq: "log_freq lg1 = log_freq lg" using run_logs_freq [OF run] by simp
    from Logger_log_returns [OF last] freq run show ?thesis
      by (simp add: cs c)
  qed
  from content step show ?thesis by simp
qed

text \<open>
  The same three calls: the flush is at iteration 2 and the buffer ends with the one row
  of iteration 3.
\<close>

theorem loss_buffer_holds_calls_since_flush_witness:
  "snd (snd (run_logs (example_logger 2 2) [] three_calls)) = None
   \<and> loss_list (fst (run_logs (example_logger 2 2) [] three_calls)) = [[5, 7]]
   \<and> length (calls_since_flush 2 three_calls) = 1
   \<and> loss_list (fst (run_logs (example_logger 2 2) [] (butlast three_calls))) = []"
proof -
  let ?r = "run_logs (example_logger 2 2) [] three_calls"
  have e: "snd (snd ?r) = None" by code_simp
  then have "?r = (fst ?r, fst (snd ?r), None)" by (metis prod.collapse)
  from loss_buffer_holds_calls_since_flush [OF this]
  have "loss_list (fst ?r) =
      (if list_ex (\<lambda>c. fst c mod log_freq (example_logger 2 2) = 0) three_calls then []
       else loss_list (example_logger 2 2))
        @ map (\<lambda>c. map snd (fst (snd c))) (calls_since_flush (log_freq (example_logger 2 2)) three_calls)"
    by blast
  also have "\<dots> = [[5, 7]]" by code_simp
  finally have b: "loss_list (fst ?r) = [[5, 7]]" .
  have c: "length (calls_since_flush 2 three_calls) = 1" by code_simp
  have d: "loss_list (fst (run_logs (example_logger 2 2) [] (butlast three_calls))) = []" by code_simp
  from e b c d show ?thesis by simp
qed

text \<open>
  C7. A logger with report interval 2 that logs a = 1, b = 3 at iteration 1 and a = 3,
  b = 5 at iteration 2 prints one line, with the means a = 2 and b = 4 paired with the
  names in order; this holds for every model, optimizer, batch and checkpoint interval.
\<close>

theorem two_logs_report_column_means:
  "printed (log_file (fst (Logger_log
       (fst (Logger_log (Logger_init mdl dir opt name 2 cfreq fill) disk 1
               [(''a'', 1), (''b'', 3)] inp1))
       disk1 2 [(''a'', 3), (''b'', 5)] inp2)))
   = [\<lparr>stamp = zfill (str_int 2) fill, scores = [(''a'', 2), (''b'', 4)]\<rparr>]"
proof -
  let ?lg1 = "fst (Logger_log (Logger_init mdl dir opt name 2 cfreq fill) disk 1
               [(''a'', 1), (''b'', 3)] inp1)"
  have first: "?lg1 = (Logger_init mdl dir opt name 2 cfreq fill)\<lparr>it := 1, loss_list := [[1, 3]]\<rparr>"
    by (simp add: Logger_log_def fst_log_body Logger_init_def)
  have upt2: "[0..<2] = [0, 1]" by (simp add: numeral_2_eq_2)
  have mean: "np_mean_axis0 [[1, 3], [3, 5]] = Inr (Means [2, 4])"
    by (simp add: np_mean_axis0_def upt2)
  show ?thesis
    unfolding first
    by (simp add: Logger_log_def fst_log_body Logger_init_def log_scores_def mean)
qed

text \<open>
  C10. \<open>log\<close> calls \<open>log_scores\<close> only on a logger whose buffer is not empty: a
  method that agrees with \<open>log_scores\<close> on the loggers with a non-empty buffer gives
  the same \<open>log\<close>. The buffer at the call is the old one with the current values
  appended, and its mean is never the NaN of an empty buffer.
\<close>

theorem log_scores_called_on_nonempty_buffer:
  assumes "\<forall>lg names. loss_list lg \<noteq> [] \<longrightarrow> f lg names = log_scores lg names"
  shows "log_body f lg disk itr losses inp = Logger_log lg disk itr losses inp
       \<and> np_mean_axis0 (loss_list lg @ [map snd losses]) \<noteq> Inr NaN"
proof -
  have call: "f lg2 names = log_scores lg2 names" if "loss_list lg2 \<noteq> []" for lg2 names
    using assms that by simp
  have same: "log_body f lg disk itr losses inp = Logger_log lg disk itr losses inp"
    by (cases losses) (simp_all add: Logger_log_def log_body_def Let_def call)
  have mean: "np_mean_axis0 (rows @ [row]) \<noteq> Inr NaN" for row :: "real list" and rows :: "real list list"
    by (cases rows) (simp_all add: np_mean_axis0_def)
  from same mean show ?thesis by simp
qed

text \<open>
  A method that raises on an empty buffer and is \<open>log_scores\<close> otherwise, in a call
  that reports.
\<close>

theorem log_scores_called_on_nonempty_buffer_witness:
  "log_body (\<lambda>lg names. if loss_list lg = [] then (lg, Some RuntimeError) else log_scores lg names)
       (example_logger 2 2) [] 2 [(''a'', 3), (''b'', 5)] one_pixel_batch
     = Logger_log (example_logger 2 2) [] 2 [(''a'', 3), (''b'', 5)] one_pixel_batch
   \<and> np_mean_axis0 (loss_list (example_logger 2 2) @ [map snd [(''a'', 3), (''b'', 5)]]) = Inr (Means [3, 5])
   \<and> snd (snd (Logger_log (example_logger 2 2) [] 2 [(''a'', 3), (''b'', 5)] one_pixel_batch)) = None"
proof -
  have h: "\<forall>lg names. loss_list lg \<noteq> [] \<longrightarrow>
      (if loss_list lg = [] then (lg, Some RuntimeError) else log_scores lg names) = log_scores lg names"
    for dummy :: "(unit, nat) logger"
    by simp
  have m: "np_mean_axis0 (loss_list (example_logger 2 2) @ [map snd [(''a'', 3), (''b'', 5)]]) = Inr (Means [3, 5])"
    by code_simp
  have r: "snd (snd (Logger_log (example_logger 2 2) [] 2 [(''a'', 3), (''b'', 5)] one_pixel_batch)) = None"
    by code_simp
  from log_scores_called_on_nonempty_buffer [OF h, of "example_logger 2 2" "[]" 2 "[(''a'', 3), (''b'', 5)]" one_pixel_batch]
  show ?thesis using m r by simp
qed

end
